theory Spec2Isabelle
  imports Complex_Main "HOL-Library.Multiset"
begin

chapter \<open>The program\<close>

section \<open>Data model\<close>

text \<open>
  The star entity of \<^verbatim>\<open>Star.py\<close>, field for field and in the order of the dataclass.
  Python floats are read as real numbers. The fields \<^verbatim>\<open>id\<close>, \<^verbatim>\<open>x\<close> and \<^verbatim>\<open>y\<close> are
  called \<open>star_id\<close>, \<open>star_x\<close> and \<open>star_y\<close> here: \<open>id\<close> is the identity function of
  HOL, and a record field \<open>x\<close> would capture every variable of that name.
\<close>

record Star =
  star_id :: int
  name :: string
  magnitude :: real
  ra :: real
  dec :: real
  star_x :: real
  star_y :: real
  constellation :: "string option"
  common_name :: "string option"
  hip :: "int option"

text \<open>The exceptions that the modelled code can raise; a raise is the left injection.\<close>

datatype error = ValueError | KeyError | TypeError | ZeroDivisionError | EphemerisQueryError

text \<open>\<^verbatim>\<open>reportlab.lib.units.inch\<close>: the number of points in an inch.\<close>

definition inch :: real where
  "inch = 72"

section \<open>The catalog\<close>

text \<open>
  A row as \<^verbatim>\<open>csv.DictReader\<close> yields it: a dictionary from the column names of the
  header to the cells of the row, where a column that the row is too short to fill holds
  \<^verbatim>\<open>None\<close>. A column that the header lacks is absent from the dictionary.
\<close>

type_synonym row = "string \<rightharpoonup> string option"

text \<open>Sequencing of computations that may raise.\<close>

definition and_then :: "error + 'a \<Rightarrow> ('a \<Rightarrow> error + 'b) \<Rightarrow> error + 'b" where
  "and_then m f = (case m of Inl e \<Rightarrow> Inl e | Inr v \<Rightarrow> f v)"

text \<open>\<^verbatim>\<open>row[key]\<close>\<close>

definition lookup :: "row \<Rightarrow> string \<Rightarrow> error + string option" where
  "lookup r key = (case r key of None \<Rightarrow> Inl KeyError | Some v \<Rightarrow> Inr v)"

text \<open>
  \<^verbatim>\<open>float(v)\<close> and \<^verbatim>\<open>int(v)\<close> for a cell \<^verbatim>\<open>v\<close>, over the built-in conversions of a string,
  which are parameters of the model: they yield no result where Python raises
  \<^verbatim>\<open>ValueError\<close>. On \<^verbatim>\<open>None\<close> both raise \<^verbatim>\<open>TypeError\<close>. The floats \<^verbatim>\<open>nan\<close> and \<^verbatim>\<open>inf\<close>
  have no counterpart among the real numbers.
\<close>

definition py_float :: "(string \<Rightarrow> real option) \<Rightarrow> string option \<Rightarrow> error + real" where
  "py_float float_of v =
     (case v of
        None \<Rightarrow> Inl TypeError
      | Some s \<Rightarrow> (case float_of s of None \<Rightarrow> Inl ValueError | Some x \<Rightarrow> Inr x))"

definition py_int :: "(string \<Rightarrow> int option) \<Rightarrow> string option \<Rightarrow> error + int" where
  "py_int int_of v =
     (case v of
        None \<Rightarrow> Inl TypeError
      | Some s \<Rightarrow> (case int_of s of None \<Rightarrow> Inl ValueError | Some i \<Rightarrow> Inr i))"

text \<open>The truth of a cell, and its text inside an f-string.\<close>

fun truthy_cell :: "string option \<Rightarrow> bool" where
  "truthy_cell None = False"
| "truthy_cell (Some s) = (s \<noteq> [])"

fun str_of :: "string option \<Rightarrow> string" where
  "str_of None = ''None''"
| "str_of (Some s) = s"

text \<open>
  The argument \<^verbatim>\<open>name\<close> of the constructor call, which Python reads as
  \<^verbatim>\<open>(row["proper"] or f"HIP {row['hip']}") if row["hip"] else f"HD {row['hd']}"\<close>.
\<close>

definition star_name :: "row \<Rightarrow> error + string" where
  "star_name r =
     and_then (lookup r ''hip'') (\<lambda>c.
       if truthy_cell c then
         and_then (lookup r ''proper'') (\<lambda>p.
           if truthy_cell p then Inr (str_of p)
           else and_then (lookup r ''hip'') (\<lambda>h. Inr (''HIP '' @ str_of h)))
       else and_then (lookup r ''hd'') (\<lambda>h. Inr (''HD '' @ str_of h)))"

text \<open>
  The body of the \<^verbatim>\<open>try\<close> block of \<^verbatim>\<open>_load_catalog\<close> for one row, with the arguments of
  the constructor evaluated in the order of the source: the star to insert, or nothing
  when the magnitude is above the threshold.
\<close>

definition read_row ::
  "(string \<Rightarrow> real option) \<Rightarrow> (string \<Rightarrow> int option) \<Rightarrow> real \<Rightarrow> row \<Rightarrow> error + Star option" where
  "read_row float_of int_of threshold r =
     and_then (lookup r ''mag'') (\<lambda>mag_cell.
     and_then (py_float float_of mag_cell) (\<lambda>mag.
       if mag \<le> threshold then
         and_then (lookup r ''id'') (\<lambda>id_cell.
         and_then (py_int int_of id_cell) (\<lambda>i.
         and_then (star_name r) (\<lambda>nm.
         and_then (lookup r ''ra'') (\<lambda>ra_cell.
         and_then (py_float float_of ra_cell) (\<lambda>ra_value.
         and_then (lookup r ''dec'') (\<lambda>dec_cell.
         and_then (py_float float_of dec_cell) (\<lambda>dec_value.
         and_then (lookup r ''con'') (\<lambda>con.
         and_then (lookup r ''proper'') (\<lambda>p.
         and_then (if truthy_cell p then lookup r ''proper'' else Inr None) (\<lambda>common.
         and_then (lookup r ''hip'') (\<lambda>h.
         and_then (if truthy_cell h
                   then and_then (lookup r ''hip'') (\<lambda>h'.
                        and_then (py_int int_of h') (\<lambda>k. Inr (Some k)))
                   else Inr None) (\<lambda>hip_value.
           Inr (Some \<lparr>star_id = i, name = nm, magnitude = mag, ra = ra_value, dec = dec_value,
                      star_x = 0, star_y = 0, constellation = con, common_name = common,
                      hip = hip_value\<rparr>)))))))))))))
       else Inr None))"

text \<open>
  \<^verbatim>\<open>self.stars[star.id] = star\<close> on a dictionary kept in insertion order: a key that is
  present keeps its place.
\<close>

fun dict_set :: "int \<Rightarrow> Star \<Rightarrow> (int \<times> Star) list \<Rightarrow> (int \<times> Star) list" where
  "dict_set k v [] = [(k, v)]"
| "dict_set k v ((k', v') # d) = (if k' = k then (k, v) # d else (k', v') # dict_set k v d)"

text \<open>
  The loop of \<^verbatim>\<open>_load_catalog\<close> over the rows: \<^verbatim>\<open>ValueError\<close> and \<^verbatim>\<open>KeyError\<close> skip the
  row, any other exception leaves the loop.
\<close>

fun load_catalog ::
  "(string \<Rightarrow> real option) \<Rightarrow> (string \<Rightarrow> int option) \<Rightarrow> real \<Rightarrow> row list
     \<Rightarrow> (int \<times> Star) list \<Rightarrow> error + (int \<times> Star) list" where
  "load_catalog float_of int_of threshold [] d = Inr d"
| "load_catalog float_of int_of threshold (r # rows) d =
     (case read_row float_of int_of threshold r of
        Inl ValueError \<Rightarrow> load_catalog float_of int_of threshold rows d
      | Inl KeyError \<Rightarrow> load_catalog float_of int_of threshold rows d
      | Inl e \<Rightarrow> Inl e
      | Inr None \<Rightarrow> load_catalog float_of int_of threshold rows d
      | Inr (Some star) \<Rightarrow>
          load_catalog float_of int_of threshold rows (dict_set (star_id star) star d))"

text \<open>
  The catalog object. Its dictionary \<^verbatim>\<open>stars\<close> is the field \<open>catalog_stars\<close>. The
  constructor sets the threshold and loads the rows of the catalog file.
\<close>

record StarCatalog =
  catalog_stars :: "(int \<times> Star) list"
  bright_star_threshold :: real

definition StarCatalog_init ::
  "(string \<Rightarrow> real option) \<Rightarrow> (string \<Rightarrow> int option) \<Rightarrow> row list \<Rightarrow> error + StarCatalog" where
  "StarCatalog_init float_of int_of rows =
     (case load_catalog float_of int_of 4.5 rows [] of
        Inl e \<Rightarrow> Inl e
      | Inr d \<Rightarrow> Inr \<lparr>catalog_stars = d, bright_star_threshold = 4.5\<rparr>)"

text \<open>\<^verbatim>\<open>get_visible_stars\<close>, whose argument defaults to \<^verbatim>\<open>None\<close>.\<close>

definition get_visible_stars :: "StarCatalog \<Rightarrow> real option \<Rightarrow> Star list" where
  "get_visible_stars cat magnitude_limit =
     (let limit = (case magnitude_limit of None \<Rightarrow> bright_star_threshold cat | Some l \<Rightarrow> l)
      in filter (\<lambda>star. magnitude star \<le> limit) (map snd (catalog_stars cat)))"

text \<open>\<^verbatim>\<open>SkyMap._load_bright_stars\<close>\<close>

definition load_bright_stars :: "StarCatalog \<Rightarrow> Star list" where
  "load_bright_stars cat = get_visible_stars cat (Some 10)"

section \<open>The constellation edge table\<close>

text \<open>
  \<^verbatim>\<open>ConstellationLines.MAJOR_CONSTELLATIONS\<close>: a dictionary from the name of a
  constellation to its list of pairs of HIP identifiers. Its keys are distinct, so it is
  kept as an association list in the order of the source.
\<close>

type_synonym edge_table = "(string \<times> (int \<times> int) list) list"

definition MAJOR_CONSTELLATIONS :: edge_table where
  "MAJOR_CONSTELLATIONS =
    [(''Orion'',
        [(26727, 26311), (26311, 25930), (25930, 26727), (26727, 27366),
         (27366, 27989), (27989, 29426), (29426, 25930)]),
     (''Taurus'',
        [(25428, 26451), (26451, 27913), (27913, 28380), (28380, 29434),
         (29434, 32349), (32349, 31681)]),
     (''Gemini'',
        [(31637, 30343), (30343, 29655), (29655, 28910), (28910, 28734),
         (28734, 27673)]),
     (''Auriga'',
        [(24608, 28380), (28380, 28360), (28360, 25428), (25428, 24608)]),
     (''Canis Major'',
        [(32349, 33165), (33165, 34444), (34444, 33579), (33579, 32349)]),
     (''Ursa Major'',
        [(54061, 53910), (53910, 58001), (58001, 59774), (59774, 65378),
         (65378, 67301), (67301, 68127)]),
     (''Perseus'',
        [(15863, 14576), (15863, 13654), (13654, 13268), (13268, 14576)]),
     (''Cancer'',
        [(44066, 42911), (42911, 42806), (42806, 41909)])]"

section \<open>The chart renderer\<close>

subsection \<open>Geometry\<close>

text \<open>The attributes that \<^verbatim>\<open>StarDiscGenerator.__init__\<close> sets.\<close>

record StarDiscGenerator =
  diameter :: real
  radius :: real
  center_hole :: real
  margin :: real
  page_width :: real
  page_height :: real
  center_x :: real
  center_y :: real
  constellation_lines :: edge_table

definition StarDiscGenerator_init :: "real \<Rightarrow> real \<Rightarrow> real \<Rightarrow> StarDiscGenerator" where
  "StarDiscGenerator_init diameter_inches center_hole_mm margin_inches =
     (let d = diameter_inches * inch;
          m = margin_inches * inch;
          w = d + (2 * m);
          h = d + (2 * m)
      in \<lparr>diameter = d, radius = d / 2, center_hole = center_hole_mm / 25.4 * inch,
          margin = m, page_width = w, page_height = h, center_x = w / 2, center_y = h / 2,
          constellation_lines = MAJOR_CONSTELLATIONS\<rparr>)"

text \<open>The generator with the default arguments, as \<^verbatim>\<open>generate_star_disc\<close> builds it.\<close>

definition default_generator :: StarDiscGenerator where
  "default_generator = StarDiscGenerator_init 8 5 1"

subsection \<open>Marker size\<close>

text \<open>
  \<^verbatim>\<open>_magnitude_to_size\<close>. The division \<^verbatim>\<open>1 / (magnitude + 2)\<close> of two floats raises
  \<^verbatim>\<open>ZeroDivisionError\<close> when the divisor is zero. The arithmetic here is that of the real
  numbers, where the code rounds every operation to a double: two magnitudes that are
  close enough get the same size in the code.
\<close>

definition base_size :: real where
  "base_size = 2"

definition max_size :: real where
  "max_size = 0.1 * inch"

definition magnitude_to_size :: "real \<Rightarrow> error + real" where
  "magnitude_to_size m =
     (if m + 2 = 0 then Inl ZeroDivisionError
      else Inr (min (base_size * (1 / (m + 2)) * inch / 25.4) max_size))"

subsection \<open>The canvas\<close>

text \<open>
  The canvas is the external PDF writer. A drawing function is modelled by the list of
  calls it makes on the canvas, in order. \<open>Circle x y r stroke fill\<close> is
  \<^verbatim>\<open>c.circle(x, y, r, stroke, fill)\<close>, whose defaults are \<^verbatim>\<open>stroke=1, fill=0\<close>. The
  creation of the canvas with its file name and page size comes before the first call.
  The diagnostics printed on standard output are not part of the model.
\<close>

datatype canvas_op =
    SetStrokeColorRGB real real real
  | SetFillColorRGB real real real
  | SetDash "real list"
  | SetLineWidth real
  | SetFont string real
  | Circle real real real bool bool
  | Line real real real real
  | DrawString real real string
  | Save




subsection \<open>Drawing one star\<close>

text \<open>
  Python's truth of the \<^verbatim>\<open>draw_name\<close> argument, which \<^verbatim>\<open>create_disc_template\<close> fills
  with the HIP identifier of the star or with \<^verbatim>\<open>None\<close>: \<^verbatim>\<open>None\<close> and \<^verbatim>\<open>0\<close> are false.
\<close>

fun truthy :: "int option \<Rightarrow> bool" where
  "truthy None = False"
| "truthy (Some k) = (k \<noteq> 0)"

text \<open>
  \<^verbatim>\<open>_draw_star\<close>. The argument \<^verbatim>\<open>magnitude\<close> is not used by the source either. The
  length of the name counts characters; catalog names are ASCII.
\<close>

definition draw_star ::
  "StarDiscGenerator \<Rightarrow> real \<Rightarrow> real \<Rightarrow> real \<Rightarrow> string \<Rightarrow> real \<Rightarrow> int option \<Rightarrow> canvas_op list" where
  "draw_star g x y sz nm mag draw_name =
     (if 0 \<le> x \<and> x \<le> diameter g \<and> 0 \<le> y \<and> y \<le> diameter g then
        [SetFillColorRGB 0 0 0, Circle x y sz False True] @
        (if truthy draw_name \<and> nm \<noteq> [] then
           (let text_x = x - real (length nm) * 2;
                text_y = y - sz - 8
            in [SetFont ''Helvetica'' 6, DrawString text_x text_y nm])
         else [])
      else [])"

subsection \<open>Constellation lines\<close>

text \<open>
  The position table \<^verbatim>\<open>star_positions\<close>: a dictionary from the \<^verbatim>\<open>hip\<close> field of a
  star, which may be \<^verbatim>\<open>None\<close>, to a pair of coordinates.
\<close>

type_synonym positions = "int option \<rightharpoonup> real \<times> real"

text \<open>The inner loop of \<^verbatim>\<open>_draw_constellation_lines\<close>, over the pairs of one constellation.\<close>

fun draw_lines :: "positions \<Rightarrow> (int \<times> int) list \<Rightarrow> canvas_op list" where
  "draw_lines star_positions [] = []"
| "draw_lines star_positions ((s1_hip, s2_hip) # lines) =
     (case star_positions (Some s1_hip) of
        None \<Rightarrow> []
      | Some (x1, y1) \<Rightarrow>
          (case star_positions (Some s2_hip) of
             None \<Rightarrow> []
           | Some (x2, y2) \<Rightarrow> [Line x1 y1 x2 y2]))
     @ draw_lines star_positions lines"

text \<open>The outer loop, over the constellations of the table.\<close>

fun draw_constellations :: "positions \<Rightarrow> edge_table \<Rightarrow> canvas_op list" where
  "draw_constellations star_positions [] = []"
| "draw_constellations star_positions ((cname, lines) # table) =
     draw_lines star_positions lines @ draw_constellations star_positions table"

definition draw_constellation_lines :: "StarDiscGenerator \<Rightarrow> positions \<Rightarrow> canvas_op list" where
  "draw_constellation_lines g star_positions =
     [SetStrokeColorRGB 0.7 0.7 0.7, SetLineWidth 0.5] @
     draw_constellations star_positions (constellation_lines g)"

subsection \<open>The template\<close>

text \<open>
  The loop of \<^verbatim>\<open>create_disc_template\<close> over the sorted stars. It carries the position
  table and the calls made on the canvas so far. Every \<^verbatim>\<open>Star\<close> has the attribute
  \<^verbatim>\<open>hip\<close>, so the test \<^verbatim>\<open>hasattr(star, "hip")\<close> holds for each of them. The arguments of
  \<^verbatim>\<open>_draw_star\<close> are evaluated after the table is updated, and the marker size among
  them may raise. The position is computed in the real numbers, where the code rounds
  every operation to a double: for a position within rounding of the border of the
  bounding square the test of \<^verbatim>\<open>_draw_star\<close> can come out differently in the code.
\<close>

fun draw_stars ::
  "StarDiscGenerator \<Rightarrow> string set \<Rightarrow> Star list \<Rightarrow> positions \<Rightarrow> canvas_op list
     \<Rightarrow> error + (positions \<times> canvas_op list)" where
  "draw_stars g brightest_stars [] star_positions c = Inr (star_positions, c)"
| "draw_stars g brightest_stars (star # rest) star_positions c =
     (let theta = (ra star / 24) * 2 * pi;
          r = radius g * (90 - dec star) / 90;
          x = center_x g + (r * cos theta);
          y = center_y g + (r * sin theta);
          star_positions' = star_positions(hip star \<mapsto> (x, y))
      in case magnitude_to_size (magnitude star) of
           Inl e \<Rightarrow> Inl e
         | Inr sz \<Rightarrow>
             draw_stars g brightest_stars rest star_positions'
               (c @ draw_star g x y sz (name star) (magnitude star)
                      (if name star \<in> brightest_stars then hip star else None)))"

text \<open>
  \<^verbatim>\<open>sorted(stars, key=lambda s: s.magnitude)\<close> is a stable sort by magnitude, as
  \<^const>\<open>sort_key\<close> is; the labeled set is the set of the names of its first ten stars.
\<close>

definition sorted_stars :: "Star list \<Rightarrow> Star list" where
  "sorted_stars stars = sort_key magnitude stars"

definition brightest_stars :: "Star list \<Rightarrow> string set" where
  "brightest_stars stars = set (map name (take 10 (sorted_stars stars)))"


subsection \<open>The disc layout of the specification\<close>

text \<open>
  The polar mapping as the specification words it, for a disc with centre
  \<open>(center_x, center_y)\<close> and outer radius \<open>radius\<close>; the theorems below compare the loop
  with it.
\<close>

definition polar_theta :: "Star \<Rightarrow> real" where
  "polar_theta s = (ra s / 24) * 2 * pi"

definition polar_r :: "StarDiscGenerator \<Rightarrow> Star \<Rightarrow> real" where
  "polar_r g s = radius g * (90 - dec s) / 90"

definition disc_position :: "StarDiscGenerator \<Rightarrow> Star \<Rightarrow> real \<times> real" where
  "disc_position g s =
     (center_x g + (polar_r g s * cos (polar_theta s)),
      center_y g + (polar_r g s * sin (polar_theta s)))"

text \<open>One iteration of the loop, told through the layout: the table entry and the calls.\<close>

definition record_position :: "StarDiscGenerator \<Rightarrow> Star \<Rightarrow> positions \<Rightarrow> positions" where
  "record_position g s star_positions = star_positions(hip s \<mapsto> disc_position g s)"

definition star_ops :: "StarDiscGenerator \<Rightarrow> string set \<Rightarrow> Star \<Rightarrow> canvas_op list" where
  "star_ops g labeled s =
     draw_star g (fst (disc_position g s)) (snd (disc_position g s))
       (projr (magnitude_to_size (magnitude s))) (name s) (magnitude s)
       (if name s \<in> labeled then hip s else None)"

text \<open>The pairs of an edge table, in the order in which the two loops visit them.\<close>

definition edges_of :: "edge_table \<Rightarrow> (int \<times> int) list" where
  "edges_of table = concat (map snd table)"

text \<open>
  The line of an edge whose two identifiers are keys of the position table, and the test
  that they are.
\<close>

definition edge_line :: "positions \<Rightarrow> int \<times> int \<Rightarrow> canvas_op" where
  "edge_line sp e =
     Line (fst (the (sp (Some (fst e))))) (snd (the (sp (Some (fst e)))))
          (fst (the (sp (Some (snd e))))) (snd (the (sp (Some (snd e)))))"

definition both_recorded :: "positions \<Rightarrow> int \<times> int \<Rightarrow> bool" where
  "both_recorded sp e = (Some (fst e) \<in> dom sp \<and> Some (snd e) \<in> dom sp)"



section \<open>The visibility projector\<close>

text \<open>
  The ephemeris is the external library \<^verbatim>\<open>ephem\<close>. For the observer and the date of one
  call of \<^verbatim>\<open>calculate_positions\<close> it is a function from the right ascension and the
  declination given to the \<^verbatim>\<open>FixedBody\<close> to the pair \<^verbatim>\<open>(az, alt)\<close> read back from it, or
  to the exception that the query raises.
\<close>

type_synonym ephemeris = "real \<Rightarrow> real \<Rightarrow> error + real \<times> real"

text \<open>\<^verbatim>\<open>[star_id for sublist in flat_star_ids for star_id in sublist]\<close>\<close>

definition flat_star_ids :: "(int \<times> int) list \<Rightarrow> int list" where
  "flat_star_ids star_ids = concat (map (\<lambda>(a, b). [a, b]) star_ids)"

text \<open>
  The first loop of \<^verbatim>\<open>calculate_positions\<close>: for each constellation of the table, the
  stars of \<^verbatim>\<open>self.stars\<close> whose \<^verbatim>\<open>hip\<close> is not \<^verbatim>\<open>None\<close> and occurs in its pairs.
\<close>

fun constellation_stars :: "edge_table \<Rightarrow> Star list \<Rightarrow> Star list" where
  "constellation_stars [] stars = []"
| "constellation_stars ((cname, star_ids) # table) stars =
     filter (\<lambda>star. hip star \<noteq> None \<and> the (hip star) \<in> set (flat_star_ids star_ids)) stars
     @ constellation_stars table stars"

definition constellation_star_ids :: "edge_table \<Rightarrow> Star list \<Rightarrow> int option list" where
  "constellation_star_ids table stars = map hip (constellation_stars table stars)"

text \<open>
  The second loop. A star is an object that the loop changes in place, so the model
  returns two things: the objects of \<^verbatim>\<open>self.stars\<close> as the loop leaves them, in their
  order, and either the list \<^verbatim>\<open>visible_stars\<close> or the exception of the first query that
  raises, which nothing in the function catches. The objects of \<^verbatim>\<open>self.stars\<close> are
  distinct and each is written at most once, so the copy appended to \<^verbatim>\<open>visible_stars\<close> is
  the state of the object at the end.
\<close>

fun calculate_loop ::
  "ephemeris \<Rightarrow> int option list \<Rightarrow> Star list \<Rightarrow> Star list \<Rightarrow> Star list \<times> (error + Star list)" where
  "calculate_loop eph ids [] visible_stars = ([], Inr visible_stars)"
| "calculate_loop eph ids (star # rest) visible_stars =
     (case eph (ra star) (dec star) of
        Inl e \<Rightarrow> (star # rest, Inl e)
      | Inr (az, alt) \<Rightarrow>
          if alt > 0 \<or> hip star \<in> set ids then
            (let x = az * cos alt;
                 y = alt;
                 star' = star\<lparr>star_x := x, star_y := y\<rparr>;
                 (rest', result) = calculate_loop eph ids rest (visible_stars @ [star'])
             in (star' # rest', result))
          else
            (let (rest', result) = calculate_loop eph ids rest visible_stars
             in (star # rest', result)))"

definition calculate_positions :: "ephemeris \<Rightarrow> Star list \<Rightarrow> Star list \<times> (error + Star list)" where
  "calculate_positions eph stars =
     calculate_loop eph (constellation_star_ids MAJOR_CONSTELLATIONS stars) stars []"

text \<open>The fields of a star other than the annotation \<^verbatim>\<open>x\<close>, \<^verbatim>\<open>y\<close>.\<close>

definition canonical_fields ::
  "Star \<Rightarrow> int \<times> string \<times> real \<times> real \<times> real \<times> string option \<times> string option \<times> int option" where
  "canonical_fields s =
     (star_id s, name s, magnitude s, ra s, dec s, constellation s, common_name s, hip s)"

section \<open>Example inputs\<close>

text \<open>Concrete stars and generators at which the theorems below are evaluated.\<close>

definition polar_star :: Star where
  "polar_star = \<lparr>star_id = 1, name = ''Pole'', magnitude = 2, ra = 7, dec = 90,
     star_x = 0, star_y = 0, constellation = None, common_name = None, hip = Some 11767\<rparr>"

definition south_star :: Star where
  "south_star = \<lparr>star_id = 2, name = ''South'', magnitude = 3, ra = 15, dec = - 90,
     star_x = 0, star_y = 0, constellation = None, common_name = None, hip = None\<rparr>"

text \<open>A generator with a margin of two inches: \<^verbatim>\<open>StarDiscGenerator(margin_inches=2)\<close>.\<close>

definition wide_margin_generator :: StarDiscGenerator where
  "wide_margin_generator = StarDiscGenerator_init 8 5 2"

text \<open>Two stars that lie outside the bounding square of the default generator.\<close>

definition far_star_a :: Star where
  "far_star_a = \<lparr>star_id = 3, name = ''A'', magnitude = 1, ra = 0, dec = - 90,
     star_x = 0, star_y = 0, constellation = None, common_name = None, hip = Some 26727\<rparr>"

definition far_star_b :: Star where
  "far_star_b = \<lparr>star_id = 4, name = ''B'', magnitude = 2, ra = 0, dec = - 45,
     star_x = 0, star_y = 0, constellation = None, common_name = None, hip = Some 26311\<rparr>"

text \<open>A generator whose table holds the single edge between the identifiers 1 and 2.\<close>

definition single_edge_generator :: StarDiscGenerator where
  "single_edge_generator = default_generator\<lparr>constellation_lines := [(''Test'', [(1, 2)])]\<rparr>"



text \<open>
  A sample ephemeris, that of an observer at the north pole, where the altitude of a star
  is its declination; it raises for a declination outside \<open>[- 90, 90]\<close>. Three stars for
  it: one just above the horizon, one just below it, and one just below it whose
  identifier occurs in the edge table.
\<close>

definition polar_ephemeris :: ephemeris where
  "polar_ephemeris r d =
     (if d < - 90 \<or> 90 < d then Inl EphemerisQueryError else Inr (r * pi / 12, d * pi / 180))"

definition star_above :: Star where
  "star_above = \<lparr>star_id = 21, name = ''Above'', magnitude = 1, ra = 0, dec = 0.0001,
     star_x = 0, star_y = 0, constellation = None, common_name = None, hip = Some 7\<rparr>"

definition star_below :: Star where
  "star_below = \<lparr>star_id = 22, name = ''Below'', magnitude = 1, ra = 0, dec = - 0.0001,
     star_x = 0, star_y = 0, constellation = None, common_name = None, hip = None\<rparr>"

definition star_below_edge :: Star where
  "star_below_edge = \<lparr>star_id = 23, name = ''Edge'', magnitude = 1, ra = 0, dec = - 0.0001,
     star_x = 0, star_y = 0, constellation = None, common_name = None, hip = Some 26727\<rparr>"

definition star_malformed :: Star where
  "star_malformed = \<lparr>star_id = 24, name = ''Bad'', magnitude = 1, ra = 0, dec = 100,
     star_x = 0, star_y = 0, constellation = None, common_name = None, hip = Some 8\<rparr>"

text \<open>
  Conversions that know the numerals of three sample rows, and the rows: a bright star,
  a star dimmer than the threshold, and a row whose magnitude is not a number.
\<close>

definition sample_float :: "string \<Rightarrow> real option" where
  "sample_float = map_of [(''-1.44'', - 1.44), (''6.75'', 6.75), (''-16.7'', - 16.7),
     (''3.6'', 3.6), (''62.0'', 62)]"

definition sample_int :: "string \<Rightarrow> int option" where
  "sample_int = map_of [(''1'', 1), (''2'', 2), (''3'', 3), (''32263'', 32263), (''48915'', 48915)]"

definition row_sirius :: row where
  "row_sirius = map_of [(''id'', Some ''1''), (''hip'', Some ''32263''), (''hd'', Some ''48915''),
     (''proper'', Some ''Sirius''), (''ra'', Some ''6.75''), (''dec'', Some ''-16.7''),
     (''mag'', Some ''-1.44''), (''con'', Some ''CMa'')]"

definition row_dim :: row where
  "row_dim = map_of [(''id'', Some ''2''), (''hip'', Some ''''), (''hd'', Some ''''),
     (''proper'', Some ''''), (''ra'', Some ''3.6''), (''dec'', Some ''62.0''),
     (''mag'', Some ''6.75''), (''con'', Some '''')]"

definition row_malformed :: row where
  "row_malformed = map_of [(''id'', Some ''3''), (''hip'', Some ''''), (''hd'', Some ''''),
     (''proper'', Some ''''), (''ra'', Some ''3.6''), (''dec'', Some ''62.0''),
     (''mag'', Some ''''), (''con'', Some '''')]"

definition sirius :: Star where
  "sirius = \<lparr>star_id = 1, name = ''Sirius'', magnitude = - 1.44, ra = 6.75, dec = - 16.7,
     star_x = 0, star_y = 0, constellation = Some ''CMa'', common_name = Some ''Sirius'',
     hip = Some 32263\<rparr>"


chapter \<open>Properties\<close>

section \<open>Marker size\<close>

lemma raw_size_antimono:
  fixes m1 m2 :: real
  assumes "- 2 < m1" and "m1 < m2"
  shows "base_size * (1 / (m2 + 2)) * inch / 25.4 < base_size * (1 / (m1 + 2)) * inch / 25.4"
proof -
  have "1 / (m2 + 2) < 1 / (m1 + 2)"
    using assms by (simp add: frac_less2)
  then have "(base_size * inch / 25.4) * (1 / (m2 + 2)) < (base_size * inch / 25.4) * (1 / (m1 + 2))"
    by (intro mult_strict_left_mono) (simp_all add: base_size_def inch_def)
  then show ?thesis
    by (simp only: mult.commute mult.left_commute times_divide_eq_right times_divide_eq_left)
qed

text \<open>
  C5 (as amended). Above the pole of the formula, that is for magnitudes
  \<open>- 2 < m1 < m2\<close>, both sizes are computed, neither exceeds the maximum size of a tenth
  of an inch, and the size of the dimmer star is not larger than that of the brighter
  one. Nothing is said of a strict decrease: under the cap the sizes are equal, and the
  rounding of floats can make the sizes of two close magnitudes equal below it.
\<close>

theorem magnitude_to_size_nonincreasing_capped:
  assumes "- 2 < m1" and "m1 < m2"
  shows "\<exists>s1 s2. magnitude_to_size m1 = Inr s1 \<and> magnitude_to_size m2 = Inr s2
           \<and> s1 \<le> max_size \<and> s2 \<le> max_size \<and> s2 \<le> s1"
proof -
  let ?r1 = "base_size * (1 / (m1 + 2)) * inch / 25.4"
  let ?r2 = "base_size * (1 / (m2 + 2)) * inch / 25.4"
  have lt: "?r2 < ?r1"
    using assms by (rule raw_size_antimono)
  have e1: "magnitude_to_size m1 = Inr (min ?r1 max_size)"
    using assms by (simp add: magnitude_to_size_def)
  have e2: "magnitude_to_size m2 = Inr (min ?r2 max_size)"
    using assms by (simp add: magnitude_to_size_def)
  have "min ?r2 max_size \<le> min ?r1 max_size"
    using lt by (simp add: min_def)
  then show ?thesis
    using e1 e2 by simp
qed

theorem magnitude_to_size_nonincreasing_capped_witness:
  "magnitude_to_size 0 = Inr (360 / 127) \<and> magnitude_to_size 1 = Inr (240 / 127)
   \<and> (360 / 127 :: real) \<le> max_size \<and> (240 / 127 :: real) \<le> max_size
   \<and> (240 / 127 :: real) \<le> 360 / 127"
proof -
  have v: "magnitude_to_size 0 = Inr (360 / 127)" "magnitude_to_size 1 = Inr (240 / 127)"
    by (simp_all add: magnitude_to_size_def base_size_def max_size_def inch_def)
  from magnitude_to_size_nonincreasing_capped [of 0 1]
  obtain s1 s2 where "magnitude_to_size 0 = Inr s1" "magnitude_to_size 1 = Inr s2"
    "s1 \<le> max_size" "s2 \<le> max_size" "s2 \<le> s1"
    by auto
  with v show ?thesis by simp
qed

text \<open>
  C5 (as stated) fails. Sirius-like magnitudes \<open>- 3/2 < - 5/4\<close> both reach the cap, so
  their sizes are equal and not strictly decreasing; below the pole the size is
  negative, so the star of magnitude \<open>- 3\<close> gets a smaller size than the dimmer star of
  magnitude \<open>- 1\<close>; and at magnitude \<open>- 2\<close> no size is computed at all.
\<close>

theorem magnitude_to_size_not_strict:
  "(- 3/2 :: real) < - 5/4
   \<and> magnitude_to_size (- 3/2) = Inr (36/5) \<and> magnitude_to_size (- 5/4) = Inr (36/5)
   \<and> magnitude_to_size (- 3) = Inr (- 720/127) \<and> magnitude_to_size (- 1) = Inr (720/127)
   \<and> magnitude_to_size (- 2) = Inl ZeroDivisionError"
  by (simp add: magnitude_to_size_def base_size_def max_size_def inch_def)

section \<open>The loop over the stars\<close>

lemma magnitude_to_size_Inr:
  "m \<noteq> - 2 \<Longrightarrow> magnitude_to_size m = Inr (projr (magnitude_to_size m))"
  by (simp add: magnitude_to_size_def)

lemma magnitude_to_size_Inl:
  "magnitude_to_size (- 2) = Inl ZeroDivisionError"
  by (simp add: magnitude_to_size_def)

lemma draw_stars_Cons:
  "draw_stars g labeled (s # ss) star_positions c =
     (case magnitude_to_size (magnitude s) of
        Inl e \<Rightarrow> Inl e
      | Inr sz \<Rightarrow>
          draw_stars g labeled ss (record_position g s star_positions)
            (c @ draw_star g (fst (disc_position g s)) (snd (disc_position g s)) sz
                   (name s) (magnitude s) (if name s \<in> labeled then hip s else None)))"
  unfolding record_position_def disc_position_def polar_theta_def polar_r_def fst_conv snd_conv
    draw_stars.simps Let_def
  by (rule refl)

lemma draw_stars_Inr:
  "\<forall>s\<in>set ss. magnitude s \<noteq> - 2 \<Longrightarrow>
   draw_stars g labeled ss star_positions c =
     Inr (fold (record_position g) ss star_positions, c @ concat (map (star_ops g labeled) ss))"
proof (induction ss arbitrary: star_positions c)
  case Nil
  then show ?case by simp
next
  case (Cons s ss)
  from Cons.prems have m: "magnitude_to_size (magnitude s) = Inr (projr (magnitude_to_size (magnitude s)))"
    by (intro magnitude_to_size_Inr) simp
  from Cons.prems have rest: "\<forall>t\<in>set ss. magnitude t \<noteq> - 2" by simp
  have "draw_stars g labeled (s # ss) star_positions c =
          draw_stars g labeled ss (record_position g s star_positions) (c @ star_ops g labeled s)"
    by (subst draw_stars_Cons, subst m) (simp add: star_ops_def)
  then show ?case
    by (simp add: Cons.IH [OF rest])
qed

lemma draw_stars_Inl:
  "s \<in> set ss \<Longrightarrow> magnitude s = - 2 \<Longrightarrow>
   draw_stars g labeled ss star_positions c = Inl ZeroDivisionError"
proof (induction ss arbitrary: star_positions c)
  case Nil
  then show ?case by simp
next
  case (Cons t ss)
  show ?case
  proof (cases "magnitude t = - 2")
    case True
    then show ?thesis
      by (subst draw_stars_Cons) (simp add: magnitude_to_size_Inl)
  next
    case False
    with Cons.prems have "s \<in> set ss" by auto
    with Cons.IH Cons.prems(2) have "\<And>p d. draw_stars g labeled ss p d = Inl ZeroDivisionError"
      by blast
    then show ?thesis
      by (subst draw_stars_Cons) (simp add: magnitude_to_size_def split: sum.split)
  qed
qed

lemma draw_stars_result:
  assumes "draw_stars g labeled ss star_positions c = Inr (star_positions', c')"
  shows "star_positions' = fold (record_position g) ss star_positions"
    and "c' = c @ concat (map (star_ops g labeled) ss)"
proof -
  have ok: "\<forall>s\<in>set ss. magnitude s \<noteq> - 2"
  proof (rule ccontr)
    assume "\<not> (\<forall>s\<in>set ss. magnitude s \<noteq> - 2)"
    then obtain s where "s \<in> set ss" and "magnitude s = - 2" by blast
    then have "draw_stars g labeled ss star_positions c = Inl ZeroDivisionError"
      by (rule draw_stars_Inl)
    with assms show False by simp
  qed
  from assms draw_stars_Inr [OF ok, of g labeled star_positions c]
  show "star_positions' = fold (record_position g) ss star_positions"
    and "c' = c @ concat (map (star_ops g labeled) ss)"
    by simp_all
qed

lemma default_generator_simps:
  "diameter default_generator = 576" "radius default_generator = 288"
  "center_x default_generator = 360" "center_y default_generator = 360"
  "constellation_lines default_generator = MAJOR_CONSTELLATIONS"
  by (simp_all add: default_generator_def StarDiscGenerator_init_def inch_def Let_def)

section \<open>Disc layout\<close>

text \<open>
  C1. Whenever the loop of the renderer returns, the position it has recorded for each star
  and the position at which it has called \<^verbatim>\<open>_draw_star\<close> for it are those of the polar
  mapping \<open>x = cx + r cos \<theta>\<close>, \<open>y = cy + r sin \<theta>\<close> with \<open>\<theta> = (ra / 24) 2\<pi>\<close> and
  \<open>r = R (90 - dec) / 90\<close>; a star of declination 90 has \<open>r = 0\<close> and lies at the centre
  of the disc, whatever its right ascension.
\<close>

theorem disc_layout_position:
  assumes "draw_stars g labeled ss star_positions c = Inr (star_positions', c')"
  shows "star_positions' = fold (\<lambda>s m. m(hip s \<mapsto> disc_position g s)) ss star_positions
    \<and> c' = c @ concat (map (\<lambda>s. draw_star g (fst (disc_position g s)) (snd (disc_position g s))
                 (projr (magnitude_to_size (magnitude s))) (name s) (magnitude s)
                 (if name s \<in> labeled then hip s else None)) ss)
    \<and> (\<forall>s. disc_position g s =
           (center_x g + radius g * (90 - dec s) / 90 * cos (ra s / 24 * 2 * pi),
            center_y g + radius g * (90 - dec s) / 90 * sin (ra s / 24 * 2 * pi)))
    \<and> (\<forall>s. dec s = 90 \<longrightarrow> polar_r g s = 0 \<and> disc_position g s = (center_x g, center_y g))"
proof -
  have run: "(star_positions', c') =
      (fold (record_position g) ss star_positions, c @ concat (map (star_ops g labeled) ss))"
    using draw_stars_result [OF assms] by simp
  have rp: "record_position g = (\<lambda>s m. m(hip s \<mapsto> disc_position g s))"
    by (intro ext) (simp add: record_position_def)
  have so: "star_ops g labeled = (\<lambda>s. draw_star g (fst (disc_position g s)) (snd (disc_position g s))
                 (projr (magnitude_to_size (magnitude s))) (name s) (magnitude s)
                 (if name s \<in> labeled then hip s else None))"
    by (intro ext) (simp add: star_ops_def)
  have formula: "\<forall>s. disc_position g s =
           (center_x g + radius g * (90 - dec s) / 90 * cos (ra s / 24 * 2 * pi),
            center_y g + radius g * (90 - dec s) / 90 * sin (ra s / 24 * 2 * pi))"
    unfolding disc_position_def polar_r_def polar_theta_def by simp
  have pole: "\<forall>s. dec s = 90 \<longrightarrow> polar_r g s = 0 \<and> disc_position g s = (center_x g, center_y g)"
    by (simp add: disc_position_def polar_r_def)
  from run rp so formula pole show ?thesis
    by simp
qed

theorem disc_layout_position_witness:
  "draw_stars default_generator {} [polar_star] Map.empty [] =
     Inr ([Some 11767 \<mapsto> (360, 360)],
          [SetFillColorRGB 0 0 0, Circle 360 360 (180 / 127) False True])
   \<and> fold (\<lambda>s m. m(hip s \<mapsto> disc_position default_generator s)) [polar_star] Map.empty
       = [Some 11767 \<mapsto> (360, 360)]
   \<and> disc_position default_generator polar_star = (360, 360)"
proof -
  have run: "draw_stars default_generator {} [polar_star] Map.empty [] =
     Inr ([Some 11767 \<mapsto> (360, 360)],
          [SetFillColorRGB 0 0 0, Circle 360 360 (180 / 127) False True])"
    by (simp add: polar_star_def default_generator_simps magnitude_to_size_def draw_star_def
        base_size_def max_size_def inch_def Let_def)
  have "dec polar_star = 90" by (simp add: polar_star_def)
  with disc_layout_position [OF run]
  have "[Some 11767 \<mapsto> (360, 360)]
          = fold (\<lambda>s m. m(hip s \<mapsto> disc_position default_generator s)) [polar_star] Map.empty"
    and "disc_position default_generator polar_star
          = (center_x default_generator, center_y default_generator)"
    by blast+
  with run show ?thesis
    by (simp add: default_generator_simps)
qed

section \<open>The bounding square\<close>

lemma square_le_of_abs_le:
  fixes a b :: real
  assumes "\<bar>a\<bar> \<le> b"
  shows "a\<^sup>2 \<le> b\<^sup>2"
proof -
  from assms have "\<bar>a\<bar> \<le> \<bar>b\<bar>" by linarith
  then show ?thesis by (simp only: abs_le_square_iff)
qed

lemma far_from_square:
  fixes c s :: real
  assumes circ: "c\<^sup>2 + s\<^sup>2 = 1"
  shows "\<not> (- 46 \<le> 360 + 576 * c \<and> 360 + 576 * c \<le> 576 + 46
          \<and> - 46 \<le> 360 + 576 * s \<and> 360 + 576 * s \<le> 576 + 46)"
proof
  assume b: "- 46 \<le> 360 + 576 * c \<and> 360 + 576 * c \<le> 576 + 46
          \<and> - 46 \<le> 360 + 576 * s \<and> 360 + 576 * s \<le> 576 + 46"
  define x where "x = 576 * c"
  define y where "y = 576 * s"
  have "\<bar>x\<bar> \<le> 406" using b by (simp add: abs_le_iff x_def)
  then have x2: "x\<^sup>2 \<le> 406\<^sup>2" by (rule square_le_of_abs_le)
  have "\<bar>y\<bar> \<le> 406" using b by (simp add: abs_le_iff y_def)
  then have y2: "y\<^sup>2 \<le> 406\<^sup>2" by (rule square_le_of_abs_le)
  have "x\<^sup>2 + y\<^sup>2 = 331776 * (c\<^sup>2 + s\<^sup>2)"
    by (simp add: x_def y_def power2_eq_square algebra_simps)
  with circ have "x\<^sup>2 + y\<^sup>2 = 331776" by simp
  with x2 y2 show False by simp
qed

lemma init_geometry:
  "diameter (StarDiscGenerator_init d h m) = 72 * d"
  "radius (StarDiscGenerator_init d h m) = 36 * d"
  "center_x (StarDiscGenerator_init d h m) = 36 * d + 72 * m"
  "center_y (StarDiscGenerator_init d h m) = 36 * d + 72 * m"
  by (simp_all add: StarDiscGenerator_init_def inch_def Let_def)

text \<open>
  C2 (as amended). For the default generator, of eight inches with a margin of one inch,
  a star of declination \<open>- 90\<close> has \<open>r = 2 R\<close> with \<open>R = diameter / 2\<close>; whatever its right
  ascension, its position misses the square \<open>0 \<le> x \<le> diameter\<close>, \<open>0 \<le> y \<le> diameter\<close>
  by more than 46 points in one of the coordinates, far beyond the rounding of floats,
  so it fails the test of \<^verbatim>\<open>_draw_star\<close>, and the loop records its position but makes no
  call on the canvas for it.
\<close>

theorem south_pole_outside_square:
  assumes south: "dec s = - 90"
  shows "radius default_generator = diameter default_generator / 2
    \<and> polar_r default_generator s = 2 * radius default_generator
    \<and> \<not> (- 46 \<le> fst (disc_position default_generator s)
          \<and> fst (disc_position default_generator s) \<le> diameter default_generator + 46
          \<and> - 46 \<le> snd (disc_position default_generator s)
          \<and> snd (disc_position default_generator s) \<le> diameter default_generator + 46)
    \<and> \<not> (0 \<le> fst (disc_position default_generator s)
          \<and> fst (disc_position default_generator s) \<le> diameter default_generator
          \<and> 0 \<le> snd (disc_position default_generator s)
          \<and> snd (disc_position default_generator s) \<le> diameter default_generator)
    \<and> star_ops default_generator labeled s = []
    \<and> (\<forall>star_positions c. magnitude s \<noteq> - 2 \<longrightarrow>
          draw_stars default_generator labeled [s] star_positions c
          = Inr (star_positions(hip s \<mapsto> disc_position default_generator s), c))"
proof -
  let ?g = default_generator
  let ?c = "cos (polar_theta s)" and ?s = "sin (polar_theta s)"
  have r: "polar_r ?g s = 576"
    using south by (simp add: polar_r_def default_generator_simps)
  have pos: "disc_position ?g s = (360 + 576 * ?c, 360 + 576 * ?s)"
    unfolding disc_position_def r by (simp add: default_generator_simps)
  have circ: "?c\<^sup>2 + ?s\<^sup>2 = 1" by simp
  have far: "\<not> (- 46 \<le> fst (disc_position ?g s) \<and> fst (disc_position ?g s) \<le> diameter ?g + 46
          \<and> - 46 \<le> snd (disc_position ?g s) \<and> snd (disc_position ?g s) \<le> diameter ?g + 46)"
    unfolding pos default_generator_simps fst_conv snd_conv using circ by (rule far_from_square)
  then have sq: "\<not> (0 \<le> fst (disc_position ?g s) \<and> fst (disc_position ?g s) \<le> diameter ?g
          \<and> 0 \<le> snd (disc_position ?g s) \<and> snd (disc_position ?g s) \<le> diameter ?g)"
    by linarith
  have ops: "star_ops ?g labeled s = []"
    unfolding star_ops_def draw_star_def using sq by (simp only: if_False)
  have run: "\<forall>star_positions c. magnitude s \<noteq> - 2 \<longrightarrow>
      draw_stars ?g labeled [s] star_positions c
        = Inr (star_positions(hip s \<mapsto> disc_position ?g s), c)"
  proof (intro allI impI)
    fix star_positions c
    assume "magnitude s \<noteq> - 2"
    then have "\<forall>t\<in>set [s]. magnitude t \<noteq> - 2" by simp
    from draw_stars_Inr [OF this, of ?g labeled star_positions c]
    show "draw_stars ?g labeled [s] star_positions c
        = Inr (star_positions(hip s \<mapsto> disc_position ?g s), c)"
      by (simp add: ops record_position_def)
  qed
  have "radius ?g = diameter ?g / 2" by (simp add: default_generator_simps)
  moreover have "polar_r ?g s = 2 * radius ?g" using r by (simp add: default_generator_simps)
  ultimately show ?thesis using far sq ops run by blast
qed

theorem south_pole_outside_square_witness:
  "dec south_star = - 90
   \<and> polar_r default_generator south_star = 2 * radius default_generator
   \<and> star_ops default_generator (brightest_stars [south_star]) south_star = []
   \<and> draw_stars default_generator (brightest_stars [south_star]) [south_star] Map.empty []
        = Inr ([None \<mapsto> disc_position default_generator south_star], [])"
proof -
  have s: "dec south_star = - 90" by (simp add: south_star_def)
  have h: "hip south_star = None" by (simp add: south_star_def)
  have m': "magnitude south_star \<noteq> - 2" by (simp add: south_star_def)
  from south_pole_outside_square [OF s, of "brightest_stars [south_star]"]
  have "polar_r default_generator south_star = 2 * radius default_generator"
    and "star_ops default_generator (brightest_stars [south_star]) south_star = []"
    and "\<forall>star_positions c. magnitude south_star \<noteq> - 2 \<longrightarrow>
          draw_stars default_generator (brightest_stars [south_star]) [south_star] star_positions c
          = Inr (star_positions(hip south_star \<mapsto> disc_position default_generator south_star), c)"
    by blast+
  with m' h s show ?thesis by simp
qed

lemma theta_south: "polar_theta south_star = pi / 4 + pi"
  by (simp add: polar_theta_def south_star_def)

lemma sqrt2_le: "sqrt 2 \<le> 3 / 2"
  by (rule real_le_lsqrt) (simp_all add: power2_eq_square)

text \<open>
  C2 (as stated) fails: the test compares page coordinates, whose origin lies a margin
  outside the square around the disc, with the diameter. With a margin of two inches the
  star of declination \<open>- 90\<close> and right ascension 15 h passes the test and its marker is
  drawn.
\<close>

theorem south_pole_drawn_with_wide_margin:
  "dec south_star = - 90
   \<and> polar_r wide_margin_generator south_star = 2 * radius wide_margin_generator
   \<and> disc_position wide_margin_generator south_star = (432 - 288 * sqrt 2, 432 - 288 * sqrt 2)
   \<and> 0 \<le> 432 - 288 * sqrt 2 \<and> 432 - 288 * sqrt 2 \<le> diameter wide_margin_generator
   \<and> draw_stars wide_margin_generator {} [south_star] Map.empty []
        = Inr ([None \<mapsto> (432 - 288 * sqrt 2, 432 - 288 * sqrt 2)],
               [SetFillColorRGB 0 0 0,
                Circle (432 - 288 * sqrt 2) (432 - 288 * sqrt 2) (144 / 127) False True])"
proof -
  have g: "diameter wide_margin_generator = 576" "radius wide_margin_generator = 288"
    "center_x wide_margin_generator = 432" "center_y wide_margin_generator = 432"
    by (simp_all add: wide_margin_generator_def init_geometry)
  have r: "polar_r wide_margin_generator south_star = 576"
    by (simp add: polar_r_def g south_star_def)
  have c: "cos (polar_theta south_star) = - (sqrt 2 / 2)"
    unfolding theta_south by (simp only: cos_periodic_pi cos_45)
  have s: "sin (polar_theta south_star) = - (sqrt 2 / 2)"
    unfolding theta_south by (simp only: sin_periodic_pi sin_45)
  have pos: "disc_position wide_margin_generator south_star = (432 - 288 * sqrt 2, 432 - 288 * sqrt 2)"
    unfolding disc_position_def r c s g by simp
  have lo: "0 \<le> 432 - 288 * sqrt 2" using sqrt2_le by simp
  have "0 \<le> sqrt 2" by simp
  then have hi: "432 - 288 * sqrt 2 \<le> 576" by linarith
  have m: "\<forall>s\<in>set [south_star]. magnitude s \<noteq> - 2" by (simp add: south_star_def)
  have h: "hip south_star = None" by (simp add: south_star_def)
  have sz: "projr (magnitude_to_size (magnitude south_star)) = 144 / 127"
    by (simp add: magnitude_to_size_def south_star_def base_size_def max_size_def inch_def)
  have ops: "star_ops wide_margin_generator {} south_star =
      [SetFillColorRGB 0 0 0, Circle (432 - 288 * sqrt 2) (432 - 288 * sqrt 2) (144 / 127) False True]"
    unfolding star_ops_def pos fst_conv snd_conv sz draw_star_def g using lo hi by simp
  have run: "draw_stars wide_margin_generator {} [south_star] Map.empty []
        = Inr ([None \<mapsto> (432 - 288 * sqrt 2, 432 - 288 * sqrt 2)],
               [SetFillColorRGB 0 0 0,
                Circle (432 - 288 * sqrt 2) (432 - 288 * sqrt 2) (144 / 127) False True])"
    by (subst draw_stars_Inr [OF m]) (simp add: ops record_position_def pos h)
  have "dec south_star = - 90" by (simp add: south_star_def)
  with r pos lo hi run g show ?thesis by simp
qed

section \<open>Constellation lines\<close>

lemma draw_lines_eq:
  "draw_lines sp lines = map (edge_line sp) (filter (both_recorded sp) lines)"
  by (induction sp lines rule: draw_lines.induct)
     (auto simp: edge_line_def both_recorded_def split: option.splits)

lemma draw_constellations_eq:
  "draw_constellations sp table = map (edge_line sp) (filter (both_recorded sp) (edges_of table))"
  by (induction sp table rule: draw_constellations.induct)
     (simp_all add: edges_of_def draw_lines_eq)

text \<open>
  C4. \<^verbatim>\<open>_draw_constellation_lines\<close> never raises, and after setting the colour and the
  width of the stroke it draws exactly one line for each pair of the table whose two
  identifiers are both keys of the position table, between the two recorded positions
  and in the order of the table; a pair with an absent endpoint contributes nothing.
\<close>

theorem edge_drawn_iff_both_endpoints:
  "draw_constellation_lines g star_positions =
     [SetStrokeColorRGB 0.7 0.7 0.7, SetLineWidth 0.5] @
     map (\<lambda>(s1_hip, s2_hip).
            Line (fst (the (star_positions (Some s1_hip)))) (snd (the (star_positions (Some s1_hip))))
                 (fst (the (star_positions (Some s2_hip)))) (snd (the (star_positions (Some s2_hip)))))
         (filter (\<lambda>(s1_hip, s2_hip). Some s1_hip \<in> dom star_positions \<and> Some s2_hip \<in> dom star_positions)
            (edges_of (constellation_lines g)))"
proof -
  have "edge_line star_positions = (\<lambda>(s1_hip, s2_hip).
            Line (fst (the (star_positions (Some s1_hip)))) (snd (the (star_positions (Some s1_hip))))
                 (fst (the (star_positions (Some s2_hip)))) (snd (the (star_positions (Some s2_hip)))))"
    by (intro ext) (simp add: edge_line_def split_def)
  moreover have "both_recorded star_positions =
      (\<lambda>(s1_hip, s2_hip). Some s1_hip \<in> dom star_positions \<and> Some s2_hip \<in> dom star_positions)"
    by (intro ext) (simp add: both_recorded_def split_def)
  ultimately show ?thesis
    using draw_constellations_eq [of star_positions "constellation_lines g"]
    by (simp add: draw_constellation_lines_def)
qed

theorem edge_drawn_iff_both_endpoints_witness:
  "draw_constellation_lines single_edge_generator [Some 1 \<mapsto> (10, 10)]
     = [SetStrokeColorRGB 0.7 0.7 0.7, SetLineWidth 0.5]
   \<and> draw_constellation_lines single_edge_generator [Some 1 \<mapsto> (10, 10), Some 2 \<mapsto> (20, 20)]
     = [SetStrokeColorRGB 0.7 0.7 0.7, SetLineWidth 0.5, Line 10 10 20 20]"
proof -
  have t: "edges_of (constellation_lines single_edge_generator) = [(1, 2)]"
    by (simp add: single_edge_generator_def edges_of_def)
  show ?thesis
    using edge_drawn_iff_both_endpoints [of single_edge_generator "[Some 1 \<mapsto> (10, 10)]"]
      edge_drawn_iff_both_endpoints
        [of single_edge_generator "[Some 1 \<mapsto> (10, 10), Some 2 \<mapsto> (20, 20)]"]
    by (simp add: t)
qed

section \<open>The position table\<close>

lemma fold_record_other:
  "k \<notin> hip ` set ss \<Longrightarrow> fold (record_position g) ss sp k = sp k"
  by (induction ss arbitrary: sp) (auto simp: record_position_def)

lemma fold_record_dom:
  "dom (fold (record_position g) ss sp) = dom sp \<union> hip ` set ss"
  by (induction ss arbitrary: sp) (auto simp: record_position_def)

lemma fold_record_some:
  "k \<in> hip ` set ss \<Longrightarrow>
   \<exists>t\<in>set ss. hip t = k \<and> fold (record_position g) ss sp k = Some (disc_position g t)"
proof (induction ss arbitrary: sp)
  case Nil
  then show ?case by simp
next
  case (Cons u ss)
  show ?case
  proof (cases "k \<in> hip ` set ss")
    case True
    from Cons.IH [OF True, of "record_position g u sp"]
    show ?thesis by auto
  next
    case False
    with Cons.prems have ku: "hip u = k" by auto
    have "fold (record_position g) ss (record_position g u sp) k = record_position g u sp k"
      using False by (rule fold_record_other)
    also have "\<dots> = Some (disc_position g u)"
      using ku by (simp add: record_position_def)
    finally show ?thesis using ku by simp
  qed
qed

lemma fold_record_distinct:
  "distinct (map hip ss) \<Longrightarrow> s \<in> set ss \<Longrightarrow>
   fold (record_position g) ss sp (hip s) = Some (disc_position g s)"
proof (induction ss arbitrary: sp)
  case Nil
  then show ?case by simp
next
  case (Cons u ss)
  show ?case
  proof (cases "s \<in> set ss")
    case True
    with Cons show ?thesis by simp
  next
    case False
    with Cons.prems have su: "s = u" by simp
    with Cons.prems have "hip s \<notin> hip ` set ss" by simp
    then have "fold (record_position g) ss (record_position g u sp) (hip s)
        = record_position g u sp (hip s)"
      by (rule fold_record_other)
    also have "\<dots> = Some (disc_position g s)"
      using su by (simp add: record_position_def)
    finally show ?thesis by simp
  qed
qed

lemma edge_line_drawn:
  assumes "e \<in> set (edges_of (constellation_lines g))"
    and "sp (Some (fst e)) = Some p" and "sp (Some (snd e)) = Some q"
  shows "Line (fst p) (snd p) (fst q) (snd q) \<in> set (draw_constellation_lines g sp)"
proof -
  have "both_recorded sp e" using assms by (auto simp: both_recorded_def)
  with assms(1) have "edge_line sp e \<in> set (draw_constellations sp (constellation_lines g))"
    by (simp add: draw_constellations_eq)
  moreover have "edge_line sp e = Line (fst p) (snd p) (fst q) (snd q)"
    using assms by (simp add: edge_line_def)
  ultimately show ?thesis by (simp add: draw_constellation_lines_def)
qed

text \<open>
  C8. Whenever the loop returns, the keys of the position table are the \<^verbatim>\<open>hip\<close> fields
  of all the stars it has processed, with no regard to the bounding square: each star
  finds under its identifier the position of a star with that identifier (the last one
  in the sorted order), hence its own when the identifiers are distinct. An edge whose
  two identifiers belong to processed stars is therefore drawn, whether or not their
  markers were.
\<close>

theorem position_recorded_regardless_of_bounds:
  assumes "draw_stars g labeled ss Map.empty c = Inr (star_positions, c')"
  shows "dom star_positions = hip ` set ss
    \<and> (\<forall>s\<in>set ss. \<exists>t\<in>set ss. hip t = hip s \<and> star_positions (hip s) = Some (disc_position g t))
    \<and> (distinct (map hip ss) \<longrightarrow> (\<forall>s\<in>set ss. star_positions (hip s) = Some (disc_position g s)))
    \<and> (\<forall>(s1_hip, s2_hip)\<in>set (edges_of (constellation_lines g)).
          Some s1_hip \<in> hip ` set ss \<and> Some s2_hip \<in> hip ` set ss \<longrightarrow>
          (\<exists>p q. star_positions (Some s1_hip) = Some p \<and> star_positions (Some s2_hip) = Some q
             \<and> Line (fst p) (snd p) (fst q) (snd q) \<in> set (draw_constellation_lines g star_positions)))"
proof -
  have sp: "star_positions = fold (record_position g) ss Map.empty"
    using assms by (rule draw_stars_result)
  have d: "dom star_positions = hip ` set ss"
    unfolding sp by (simp add: fold_record_dom)
  have a: "\<forall>s\<in>set ss. \<exists>t\<in>set ss. hip t = hip s \<and> star_positions (hip s) = Some (disc_position g t)"
    unfolding sp using fold_record_some [of _ ss g Map.empty] by blast
  have b: "distinct (map hip ss) \<longrightarrow> (\<forall>s\<in>set ss. star_positions (hip s) = Some (disc_position g s))"
    unfolding sp by (blast intro: fold_record_distinct)
  have l: "\<forall>(s1_hip, s2_hip)\<in>set (edges_of (constellation_lines g)).
          Some s1_hip \<in> hip ` set ss \<and> Some s2_hip \<in> hip ` set ss \<longrightarrow>
          (\<exists>p q. star_positions (Some s1_hip) = Some p \<and> star_positions (Some s2_hip) = Some q
             \<and> Line (fst p) (snd p) (fst q) (snd q) \<in> set (draw_constellation_lines g star_positions))"
  proof (clarify)
    fix a b s1 s2
    assume e: "(a, b) \<in> set (edges_of (constellation_lines g))"
      and "Some a = hip s1" "s1 \<in> set ss" "Some b = hip s2" "s2 \<in> set ss"
    with d have "Some a \<in> dom star_positions" "Some b \<in> dom star_positions" by auto
    then obtain p q where pq: "star_positions (Some a) = Some p" "star_positions (Some b) = Some q"
      by auto
    with e have "Line (fst p) (snd p) (fst q) (snd q) \<in> set (draw_constellation_lines g star_positions)"
      by (intro edge_line_drawn [of "(a, b)"]) simp_all
    with pq show "\<exists>p q. star_positions (Some a) = Some p \<and> star_positions (Some b) = Some q
             \<and> Line (fst p) (snd p) (fst q) (snd q) \<in> set (draw_constellation_lines g star_positions)"
      by blast
  qed
  from d a b l show ?thesis by blast
qed


theorem position_recorded_regardless_of_bounds_witness:
  "draw_stars default_generator {} [far_star_a, far_star_b] Map.empty []
     = Inr ([Some 26727 \<mapsto> (936, 360), Some 26311 \<mapsto> (792, 360)], [])
   \<and> Line 936 360 792 360
        \<in> set (draw_constellation_lines default_generator
                 [Some 26727 \<mapsto> (936, 360), Some 26311 \<mapsto> (792, 360)])"
proof -
  let ?sp = "[Some (26727 :: int) \<mapsto> (936 :: real, 360 :: real), Some 26311 \<mapsto> (792, 360)]"
  have run: "draw_stars default_generator {} [far_star_a, far_star_b] Map.empty [] = Inr (?sp, [])"
    by (simp add: far_star_a_def far_star_b_def default_generator_simps magnitude_to_size_def
        draw_star_def base_size_def max_size_def inch_def Let_def)
  have e: "(26727, 26311) \<in> set (edges_of (constellation_lines default_generator))"
    by (simp add: default_generator_simps MAJOR_CONSTELLATIONS_def edges_of_def)
  have h: "Some 26727 \<in> hip ` set [far_star_a, far_star_b]
         \<and> Some 26311 \<in> hip ` set [far_star_a, far_star_b]"
    by (simp add: far_star_a_def far_star_b_def)
  note all = position_recorded_regardless_of_bounds
    [OF run, THEN conjunct2, THEN conjunct2, THEN conjunct2]
  from mp [OF bspec [OF all e, unfolded prod.case] h]
  obtain p q where "?sp (Some 26727) = Some p" and "?sp (Some 26311) = Some q"
    and l: "Line (fst p) (snd p) (fst q) (snd q) \<in> set (draw_constellation_lines default_generator ?sp)"
    by blast
  then have "p = (936, 360)" and "q = (792, 360)" by simp_all
  with l have "Line 936 360 792 360 \<in> set (draw_constellation_lines default_generator ?sp)"
    by simp
  with run show ?thesis by (rule conjI)
qed

section \<open>The labeled set\<close>



















section \<open>The visibility projector\<close>

lemma set_flat_star_ids:
  "h \<in> set (flat_star_ids star_ids) \<longleftrightarrow> (\<exists>a b. (a, b) \<in> set star_ids \<and> (h = a \<or> h = b))"
  by (induction star_ids) (auto simp: flat_star_ids_def)

lemma hip_in_pairs:
  "hip s \<noteq> None \<and> the (hip s) \<in> set (flat_star_ids star_ids) \<longleftrightarrow>
     (\<exists>a b. (a, b) \<in> set star_ids \<and> (hip s = Some a \<or> hip s = Some b))"
  by (cases "hip s") (auto simp: set_flat_star_ids)

lemma set_constellation_stars:
  "set (constellation_stars table stars) =
     {s \<in> set stars. \<exists>a b. (a, b) \<in> set (edges_of table) \<and> (hip s = Some a \<or> hip s = Some b)}"
proof (induction table stars rule: constellation_stars.induct)
  case (1 stars)
  then show ?case by (simp add: edges_of_def)
next
  case (2 cname star_ids table stars)
  have e: "set (edges_of ((cname, star_ids) # table)) = set star_ids \<union> set (edges_of table)"
    by (simp add: edges_of_def)
  have "set (constellation_stars ((cname, star_ids) # table) stars) =
      {s \<in> set stars. \<exists>a b. (a, b) \<in> set star_ids \<and> (hip s = Some a \<or> hip s = Some b)}
      \<union> set (constellation_stars table stars)"
    using hip_in_pairs [of _ star_ids] by auto
  also have "\<dots> = {s \<in> set stars. \<exists>a b. (a, b) \<in> set (edges_of ((cname, star_ids) # table))
      \<and> (hip s = Some a \<or> hip s = Some b)}"
    unfolding e "2.IH" by blast
  finally show ?case .
qed

lemma hip_in_constellation_star_ids:
  assumes "s \<in> set stars"
  shows "hip s \<in> set (constellation_star_ids table stars) \<longleftrightarrow>
         (\<exists>a b. (a, b) \<in> set (edges_of table) \<and> (hip s = Some a \<or> hip s = Some b))"
proof
  assume "hip s \<in> set (constellation_star_ids table stars)"
  then obtain t where "t \<in> set (constellation_stars table stars)" and "hip t = hip s"
    by (auto simp: constellation_star_ids_def)
  then show "\<exists>a b. (a, b) \<in> set (edges_of table) \<and> (hip s = Some a \<or> hip s = Some b)"
    by (auto simp: set_constellation_stars)
next
  assume "\<exists>a b. (a, b) \<in> set (edges_of table) \<and> (hip s = Some a \<or> hip s = Some b)"
  with assms have "s \<in> set (constellation_stars table stars)"
    by (simp add: set_constellation_stars)
  then show "hip s \<in> set (constellation_star_ids table stars)"
    by (simp add: constellation_star_ids_def)
qed

lemma calculate_loop_all_resolved:
  assumes "\<forall>s\<in>set stars. eph (ra s) (dec s) = Inr (az s, alt s)"
  shows "calculate_loop eph ids stars visible_stars =
    (map (\<lambda>s. if alt s > 0 \<or> hip s \<in> set ids
               then s\<lparr>star_x := az s * cos (alt s), star_y := alt s\<rparr> else s) stars,
     Inr (visible_stars @
          map (\<lambda>s. s\<lparr>star_x := az s * cos (alt s), star_y := alt s\<rparr>)
            (filter (\<lambda>s. alt s > 0 \<or> hip s \<in> set ids) stars)))"
  using assms
  by (induction stars arbitrary: visible_stars) (simp_all add: Let_def)

lemma calculate_loop_raises:
  assumes "\<forall>s\<in>set before. eph (ra s) (dec s) = Inr (az s, alt s)"
    and "eph (ra bad) (dec bad) = Inl e"
  shows "calculate_loop eph ids (before @ bad # rest) visible_stars =
    (map (\<lambda>s. if alt s > 0 \<or> hip s \<in> set ids
               then s\<lparr>star_x := az s * cos (alt s), star_y := alt s\<rparr> else s) before
       @ bad # rest,
     Inl e)"
  using assms
  by (induction before arbitrary: visible_stars) (simp_all add: Let_def)

lemma calculate_loop_frame:
  "map canonical_fields (fst (calculate_loop eph ids stars visible_stars)) = map canonical_fields stars"
  by (induction stars arbitrary: visible_stars)
     (simp_all add: Let_def split_beta canonical_fields_def split: sum.splits)

lemma calculate_loop_visible:
  assumes "calculate_loop eph ids stars visible_stars = (stars', Inr result)"
  shows "\<exists>new. result = visible_stars @ new \<and> set new \<subseteq> set stars'"
  using assms
proof (induction stars arbitrary: visible_stars stars')
  case Nil
  then show ?case by simp
next
  case (Cons s stars)
  show ?case
  proof (cases "eph (ra s) (dec s)")
    case (Inl e)
    with Cons.prems show ?thesis by simp
  next
    case (Inr p)
    obtain az alt where p: "p = (az, alt)" by (cases p)
    show ?thesis
    proof (cases "alt > 0 \<or> hip s \<in> set ids")
      case True
      let ?s = "s\<lparr>star_x := az * cos alt, star_y := alt\<rparr>"
      from Cons.prems Inr p True obtain rest' where
        r: "calculate_loop eph ids stars (visible_stars @ [?s]) = (rest', Inr result)"
        and s': "stars' = ?s # rest'"
        by (auto simp: Let_def split: prod.splits)
      from Cons.IH [OF r] obtain new where "result = (visible_stars @ [?s]) @ new" "set new \<subseteq> set rest'"
        by blast
      with s' show ?thesis by (intro exI [of _ "?s # new"]) auto
    next
      case False
      from Cons.prems Inr p False obtain rest' where
        r: "calculate_loop eph ids stars visible_stars = (rest', Inr result)"
        and s': "stars' = s # rest'"
        by (auto simp: Let_def split: prod.splits)
      from Cons.IH [OF r] s' show ?thesis by auto
    qed
  qed
qed


lemma polar_ephemeris_examples:
  "polar_ephemeris (ra star_above) (dec star_above) = Inr (ra star_above * pi / 12, dec star_above * pi / 180)"
  "polar_ephemeris (ra star_below) (dec star_below) = Inr (ra star_below * pi / 12, dec star_below * pi / 180)"
  "polar_ephemeris (ra star_below_edge) (dec star_below_edge)
     = Inr (ra star_below_edge * pi / 12, dec star_below_edge * pi / 180)"
  "polar_ephemeris (ra star_malformed) (dec star_malformed) = Inl EphemerisQueryError"
  by (simp_all add: polar_ephemeris_def star_above_def star_below_def star_below_edge_def
      star_malformed_def)

lemma example_star_fields:
  "ra star_above = 0" "dec star_above = 0.0001" "hip star_above = Some 7"
  "ra star_below = 0" "dec star_below = - 0.0001" "hip star_below = None"
  "ra star_below_edge = 0" "dec star_below_edge = - 0.0001" "hip star_below_edge = Some 26727"
  by (simp_all add: star_above_def star_below_def star_below_edge_def)

lemma edge_26727:
  "\<exists>a b. (a, b) \<in> set (edges_of MAJOR_CONSTELLATIONS) \<and> (Some 26727 = Some a \<or> Some 26727 = Some b)"
  by (intro exI [of _ 26727] exI [of _ 26311]) (simp add: edges_of_def MAJOR_CONSTELLATIONS_def)

text \<open>
  C3. When the ephemeris resolves every star of the catalog, to the azimuth \<open>az s\<close> and the
  altitude \<open>alt s\<close>, the projector returns, in catalog order and with their annotation,
  exactly the stars whose altitude is strictly positive or whose HIP identifier occurs
  in some pair of the constellation edge table.
\<close>

theorem visibility_inclusion:
  assumes "\<forall>s\<in>set stars. eph (ra s) (dec s) = Inr (az s, alt s)"
  shows "snd (calculate_positions eph stars) =
     Inr (map (\<lambda>s. s\<lparr>star_x := az s * cos (alt s), star_y := alt s\<rparr>)
           (filter (\<lambda>s. alt s > 0 \<or>
                       (\<exists>a b. (a, b) \<in> set (edges_of MAJOR_CONSTELLATIONS)
                           \<and> (hip s = Some a \<or> hip s = Some b)))
              stars))"
proof -
  let ?ids = "constellation_star_ids MAJOR_CONSTELLATIONS stars"
  have "filter (\<lambda>s. alt s > 0 \<or> hip s \<in> set ?ids) stars =
        filter (\<lambda>s. alt s > 0 \<or>
                       (\<exists>a b. (a, b) \<in> set (edges_of MAJOR_CONSTELLATIONS)
                           \<and> (hip s = Some a \<or> hip s = Some b))) stars"
    by (rule filter_cong) (simp_all add: hip_in_constellation_star_ids)
  with calculate_loop_all_resolved [OF assms, of ?ids "[]"] show ?thesis
    by (simp add: calculate_positions_def)
qed

theorem visibility_inclusion_witness:
  "snd (calculate_positions polar_ephemeris [star_above, star_below, star_below_edge]) =
     Inr [star_above\<lparr>star_x := 0, star_y := 0.0001 * pi / 180\<rparr>,
          star_below_edge\<lparr>star_x := 0, star_y := - 0.0001 * pi / 180\<rparr>]"
proof -
  have "\<forall>s\<in>set [star_above, star_below, star_below_edge].
          polar_ephemeris (ra s) (dec s) = Inr (ra s * pi / 12, dec s * pi / 180)"
    by (simp add: polar_ephemeris_examples)
  from visibility_inclusion [OF this] edge_26727 show ?thesis
    by (simp add: example_star_fields)
qed

text \<open>
  C7 (as amended). When the ephemeris fails for a star, the first one in catalog order to
  do so, the projector does not catch the failure: the pass ends at that star with the
  error of the query and returns no list of visible stars.
\<close>

theorem ephemeris_failure_aborts:
  assumes "\<forall>s\<in>set before. eph (ra s) (dec s) = Inr (az s, alt s)"
    and "eph (ra bad) (dec bad) = Inl e"
  shows "snd (calculate_positions eph (before @ bad # rest)) = Inl e"
  using calculate_loop_raises [OF assms]
  by (simp add: calculate_positions_def)

theorem ephemeris_failure_aborts_witness:
  "snd (calculate_positions polar_ephemeris [star_above, star_malformed, star_below_edge])
     = Inl EphemerisQueryError"
proof -
  have "\<forall>s\<in>set [star_above]. polar_ephemeris (ra s) (dec s) = Inr (ra s * pi / 12, dec s * pi / 180)"
    by (simp add: polar_ephemeris_examples)
  from ephemeris_failure_aborts [OF this polar_ephemeris_examples(4), of "[star_below_edge]"]
  show ?thesis by simp
qed

text \<open>
  C7 (as stated) fails: with a first star that the ephemeris cannot resolve, the pass
  over two stars ends with the error, although the second star alone is visible.
\<close>

theorem one_failing_star_aborts_the_pass:
  "snd (calculate_positions polar_ephemeris [star_malformed, star_above]) = Inl EphemerisQueryError
   \<and> snd (calculate_positions polar_ephemeris [star_above])
       = Inr [star_above\<lparr>star_x := 0, star_y := 0.0001 * pi / 180\<rparr>]"
  by (simp add: calculate_positions_def polar_ephemeris_def example_star_fields
      star_malformed_def Let_def)

text \<open>
  C9. After a pass of the projector, whether it returns or raises, the catalog has as
  many stars as before, and each of them has the identifier, name, magnitude, right
  ascension, declination, constellation, common name and HIP identifier that it had
  before; the stars returned are among them.
\<close>

theorem canonical_fields_unchanged:
  "length (fst (calculate_positions eph stars)) = length stars
   \<and> (\<forall>i < length stars.
         star_id (fst (calculate_positions eph stars) ! i) = star_id (stars ! i)
       \<and> name (fst (calculate_positions eph stars) ! i) = name (stars ! i)
       \<and> magnitude (fst (calculate_positions eph stars) ! i) = magnitude (stars ! i)
       \<and> ra (fst (calculate_positions eph stars) ! i) = ra (stars ! i)
       \<and> dec (fst (calculate_positions eph stars) ! i) = dec (stars ! i)
       \<and> constellation (fst (calculate_positions eph stars) ! i) = constellation (stars ! i)
       \<and> common_name (fst (calculate_positions eph stars) ! i) = common_name (stars ! i)
       \<and> hip (fst (calculate_positions eph stars) ! i) = hip (stars ! i))
   \<and> (\<forall>visible_stars. snd (calculate_positions eph stars) = Inr visible_stars \<longrightarrow>
         set visible_stars \<subseteq> set (fst (calculate_positions eph stars)))"
proof -
  let ?after = "fst (calculate_positions eph stars)"
  have m: "map canonical_fields ?after = map canonical_fields stars"
    by (simp add: calculate_positions_def calculate_loop_frame)
  then have l: "length ?after = length stars"
    by (rule map_eq_imp_length_eq)
  have f: "canonical_fields (?after ! i) = canonical_fields (stars ! i)" if "i < length stars" for i
  proof -
    have "map canonical_fields ?after ! i = map canonical_fields stars ! i"
      by (simp only: m)
    with that l show ?thesis by simp
  qed
  have v: "set visible_stars \<subseteq> set ?after"
    if "snd (calculate_positions eph stars) = Inr visible_stars" for visible_stars
  proof -
    from that have "calculate_loop eph (constellation_star_ids MAJOR_CONSTELLATIONS stars) stars []
        = (?after, Inr visible_stars)"
      by (simp add: calculate_positions_def prod_eq_iff)
    from calculate_loop_visible [OF this] show ?thesis by simp
  qed
  from l f v show ?thesis
    by (simp add: canonical_fields_def)
qed

theorem canonical_fields_unchanged_witness:
  "fst (calculate_positions polar_ephemeris [star_above, star_below, star_below_edge])
     = [star_above\<lparr>star_x := 0, star_y := 0.0001 * pi / 180\<rparr>, star_below,
        star_below_edge\<lparr>star_x := 0, star_y := - 0.0001 * pi / 180\<rparr>]
   \<and> length (fst (calculate_positions polar_ephemeris [star_above, star_below, star_below_edge])) = 3
   \<and> name (fst (calculate_positions polar_ephemeris [star_above, star_below, star_below_edge]) ! 2)
       = ''Edge''
   \<and> hip (fst (calculate_positions polar_ephemeris [star_above, star_below, star_below_edge]) ! 2)
       = Some 26727"
proof -
  let ?stars = "[star_above, star_below, star_below_edge]"
  note t = canonical_fields_unchanged [of polar_ephemeris ?stars]
  from t have l: "length (fst (calculate_positions polar_ephemeris ?stars)) = length ?stars"
    by (rule conjunct1)
  from t have "\<forall>i < length ?stars.
         star_id (fst (calculate_positions polar_ephemeris ?stars) ! i) = star_id (?stars ! i)
       \<and> name (fst (calculate_positions polar_ephemeris ?stars) ! i) = name (?stars ! i)
       \<and> magnitude (fst (calculate_positions polar_ephemeris ?stars) ! i) = magnitude (?stars ! i)
       \<and> ra (fst (calculate_positions polar_ephemeris ?stars) ! i) = ra (?stars ! i)
       \<and> dec (fst (calculate_positions polar_ephemeris ?stars) ! i) = dec (?stars ! i)
       \<and> constellation (fst (calculate_positions polar_ephemeris ?stars) ! i) = constellation (?stars ! i)
       \<and> common_name (fst (calculate_positions polar_ephemeris ?stars) ! i) = common_name (?stars ! i)
       \<and> hip (fst (calculate_positions polar_ephemeris ?stars) ! i) = hip (?stars ! i)"
    by (rule conjunct2 [THEN conjunct1])
  then have "name (fst (calculate_positions polar_ephemeris ?stars) ! 2) = name (?stars ! 2)"
    and "hip (fst (calculate_positions polar_ephemeris ?stars) ! 2) = hip (?stars ! 2)"
    by simp_all
  then have n: "name (fst (calculate_positions polar_ephemeris ?stars) ! 2) = ''Edge''"
    and h: "hip (fst (calculate_positions polar_ephemeris ?stars) ! 2) = Some 26727"
    by (simp_all add: star_below_edge_def)
  have ids: "Some 26727 \<in> set (constellation_star_ids MAJOR_CONSTELLATIONS ?stars)"
    using hip_in_constellation_star_ids [of star_below_edge ?stars MAJOR_CONSTELLATIONS] edge_26727
    by (simp add: example_star_fields)
  have nids: "None \<notin> set (constellation_star_ids MAJOR_CONSTELLATIONS ?stars)"
    using hip_in_constellation_star_ids [of star_below ?stars MAJOR_CONSTELLATIONS]
    by (simp add: example_star_fields)
  have r: "fst (calculate_positions polar_ephemeris ?stars)
     = [star_above\<lparr>star_x := 0, star_y := 0.0001 * pi / 180\<rparr>, star_below,
        star_below_edge\<lparr>star_x := 0, star_y := - 0.0001 * pi / 180\<rparr>]"
    by (simp add: calculate_positions_def polar_ephemeris_def example_star_fields ids nids Let_def)
  from r l n h show ?thesis by simp
qed

section \<open>The catalog\<close>

lemma and_then_Inr:
  "and_then m f = Inr v \<longleftrightarrow> (\<exists>a. m = Inr a \<and> f a = Inr v)"
  by (cases m) (simp_all add: and_then_def)

lemma read_row_magnitude:
  assumes "read_row float_of int_of threshold r = Inr (Some star)"
  shows "magnitude star \<le> threshold"
  using assms unfolding read_row_def
  by (auto simp: and_then_Inr split: if_splits)

lemma dict_set_values:
  "snd ` set (dict_set k v d) \<subseteq> insert v (snd ` set d)"
  by (induction k v d rule: dict_set.induct) auto

lemma load_catalog_bright:
  assumes "load_catalog float_of int_of threshold rows d = Inr d'"
    and "\<forall>s\<in>snd ` set d. magnitude s \<le> threshold"
  shows "\<forall>s\<in>snd ` set d'. magnitude s \<le> threshold"
  using assms
proof (induction rows arbitrary: d)
  case Nil
  then show ?case by simp
next
  case (Cons r rows)
  show ?case
  proof (cases "read_row float_of int_of threshold r")
    case (Inl e)
    with Cons.prems(1) have "load_catalog float_of int_of threshold rows d = Inr d'"
      by (cases e) simp_all
    then show ?thesis using Cons.prems(2) by (rule Cons.IH)
  next
    case (Inr res)
    show ?thesis
    proof (cases res)
      case None
      with Inr Cons.prems(1) have "load_catalog float_of int_of threshold rows d = Inr d'"
        by simp
      then show ?thesis using Cons.prems(2) by (rule Cons.IH)
    next
      case (Some star)
      with Inr Cons.prems(1) have
        l: "load_catalog float_of int_of threshold rows (dict_set (star_id star) star d) = Inr d'"
        by simp
      from Inr Some have "magnitude star \<le> threshold"
        by (intro read_row_magnitude [of float_of int_of threshold r]) simp
      with Cons.prems(2) dict_set_values [of "star_id star" star d]
      have "\<forall>s\<in>snd ` set (dict_set (star_id star) star d). magnitude s \<le> threshold"
        by blast
      with l show ?thesis by (rule Cons.IH)
    qed
  qed
qed

text \<open>
  C10. In a catalog that the constructor has loaded, every star has a magnitude of at most
  4.5. For every limit of at least 4.5 the filter by magnitude therefore returns the
  same stars as with the limit 4.5; in particular the request of the sky map, with the
  limit 10, does, and none of its stars is dimmer than magnitude 4.5.
\<close>

theorem catalog_holds_only_bright_stars:
  assumes "StarCatalog_init float_of int_of rows = Inr cat"
  shows "(\<forall>star\<in>set (map snd (catalog_stars cat)). magnitude star \<le> 4.5)
    \<and> (\<forall>limit. 4.5 \<le> limit \<longrightarrow>
          get_visible_stars cat (Some limit) = get_visible_stars cat (Some 4.5))
    \<and> load_bright_stars cat = get_visible_stars cat (Some 4.5)
    \<and> (\<forall>star\<in>set (load_bright_stars cat). magnitude star \<le> 4.5)"
proof -
  from assms obtain d where
    l: "load_catalog float_of int_of 4.5 rows [] = Inr d" and c: "catalog_stars cat = d"
    by (auto simp: StarCatalog_init_def split: sum.splits)
  from load_catalog_bright [OF l] c
  have b: "\<forall>star\<in>set (map snd (catalog_stars cat)). magnitude star \<le> 4.5"
    by simp
  have f: "get_visible_stars cat (Some limit) = map snd (catalog_stars cat)"
    if "4.5 \<le> limit" for limit
  proof -
    have "\<forall>star\<in>set (map snd (catalog_stars cat)). magnitude star \<le> limit"
      using b that by force
    then show ?thesis
      by (simp add: get_visible_stars_def)
  qed
  have 1: "\<forall>limit. 4.5 \<le> limit \<longrightarrow>
          get_visible_stars cat (Some limit) = get_visible_stars cat (Some 4.5)"
    using f by simp
  have 2: "load_bright_stars cat = get_visible_stars cat (Some 4.5)"
    using f [of 10] f [of "4.5"] by (simp add: load_bright_stars_def)
  have 3: "\<forall>star\<in>set (load_bright_stars cat). magnitude star \<le> 4.5"
    using f [of 10] b by (simp add: load_bright_stars_def)
  from b 1 2 3 show ?thesis by blast
qed

lemma read_row_examples:
  "read_row sample_float sample_int 4.5 row_sirius = Inr (Some sirius)"
  "read_row sample_float sample_int 4.5 row_dim = Inr None"
  "read_row sample_float sample_int 4.5 row_malformed = Inl ValueError"
  by (simp_all add: read_row_def star_name_def and_then_def lookup_def py_float_def py_int_def
      sample_float_def sample_int_def row_sirius_def row_dim_def row_malformed_def sirius_def)

theorem catalog_holds_only_bright_stars_witness:
  "StarCatalog_init sample_float sample_int [row_sirius, row_dim, row_malformed]
     = Inr \<lparr>catalog_stars = [(1, sirius)], bright_star_threshold = 4.5\<rparr>
   \<and> load_bright_stars \<lparr>catalog_stars = [(1, sirius)], bright_star_threshold = 4.5\<rparr> = [sirius]
   \<and> get_visible_stars \<lparr>catalog_stars = [(1, sirius)], bright_star_threshold = 4.5\<rparr> (Some 4.5)
       = [sirius]
   \<and> magnitude sirius \<le> 4.5"
proof -
  let ?cat = "\<lparr>catalog_stars = [(1, sirius)], bright_star_threshold = 4.5\<rparr>"
  have s: "star_id sirius = 1" by (simp add: sirius_def)
  have init: "StarCatalog_init sample_float sample_int [row_sirius, row_dim, row_malformed] = Inr ?cat"
    unfolding StarCatalog_init_def load_catalog.simps read_row_examples
    by (simp add: s)
  note t = catalog_holds_only_bright_stars [OF init]
  from t have "\<forall>star\<in>set (map snd (catalog_stars ?cat)). magnitude star \<le> 4.5"
    by (rule conjunct1)
  then have m: "magnitude sirius \<le> 4.5" by simp
  from t have e: "load_bright_stars ?cat = get_visible_stars ?cat (Some 4.5)"
    by (rule conjunct2 [THEN conjunct2, THEN conjunct1])
  have "get_visible_stars ?cat (Some 4.5) = [sirius]"
    using m by (simp add: get_visible_stars_def)
  with init e m show ?thesis by simp
qed

end
